theory Spec2Isabelle
  imports Complex_Main
begin

section \<open>Data model (src/app/index.tsx, lines 8-45)\<close>

text \<open>
  The interfaces \<open>LocationState\<close> and \<open>RouteCoordinates\<close> have the same shape, a
  latitude and a longitude. The fields of a \<open>LocationState\<close> are numbers: they come from the
  constants of \<open>ROUTES\<close> and from the location provider. The elements of the
  \<open>routeCoordinates\<close> state are built from the parsed body of the routing service, whose
  type annotations are erased at run time, so their fields hold whatever JavaScript value the
  body had there. One record, polymorphic in the type of its fields, serves both.

  A JavaScript number is modelled as a real: the arithmetic is exact, every number is finite,
  and \<open>NaN\<close> appears only where an operation of the source can produce it from finite
  numbers (\<open>Math.sqrt\<close> of a negative number), as the value \<open>None\<close>.
\<close>

record 'n LatLng =
  latitude :: 'n
  longitude :: 'n

type_synonym LocationState = "real LatLng"

record Route =
  id_route :: int
  name :: string
  endLocation :: LocationState

definition ROUTES :: "Route list" where
  "ROUTES =
    [\<lparr>id_route = 1, name = ''Cathedral Rock Trail'',
      endLocation = \<lparr>latitude = 34.8222, longitude = -111.7901\<rparr>\<rparr>,
     \<lparr>id_route = 2, name = ''Bell Rock Pathway'',
      endLocation = \<lparr>latitude = 34.8032, longitude = -111.7761\<rparr>\<rparr>,
     \<lparr>id_route = 3, name = ''Devil's Bridge Trail'',
      endLocation = \<lparr>latitude = 34.8837, longitude = -111.8158\<rparr>\<rparr>,
     \<lparr>id_route = 4, name = ''Soldier Pass Trail'',
      endLocation = \<lparr>latitude = 34.8743, longitude = -111.7967\<rparr>\<rparr>]"

subsection \<open>JavaScript values of a parsed response body\<close>

text \<open>
  \<open>response.json()\<close> yields a value built from \<open>null\<close>, booleans, numbers, strings,
  arrays and objects; \<open>JUndefined\<close> is what reading an absent property gives. An object is
  the list of its own properties.
\<close>

datatype jsval =
  JUndefined | JNull | JBool bool | JNumber real | JString string
  | JArray "jsval list" | JObject "(string \<times> jsval) list"

type_synonym RouteCoordinates = "jsval LatLng"

datatype error = NetworkError | SyntaxError | TypeError

fun and_then :: "error + 'a \<Rightarrow> ('a \<Rightarrow> error + 'b) \<Rightarrow> error + 'b" where
  "and_then (Inl e) f = Inl e"
| "and_then (Inr x) f = f x"

text \<open>The operand of \<open>&&\<close> and of \<open>if\<close> is converted to a boolean.\<close>

fun truthy :: "jsval \<Rightarrow> bool" where
  "truthy JUndefined = False"
| "truthy JNull = False"
| "truthy (JBool b) = b"
| "truthy (JNumber x) = (x \<noteq> 0)"
| "truthy (JString s) = (s \<noteq> [])"
| "truthy (JArray xs) = True"
| "truthy (JObject kvs) = True"

text \<open>
  \<open>v.routes\<close>, \<open>v.geometry\<close>, \<open>v.coordinates\<close>: reading a property of \<open>undefined\<close> or
  \<open>null\<close> throws a TypeError; an object gives its property of that name, or \<open>undefined\<close>;
  arrays, strings, numbers and booleans have no property of these three names.
\<close>

fun getField :: "jsval \<Rightarrow> string \<Rightarrow> error + jsval" where
  "getField JUndefined k = Inl TypeError"
| "getField JNull k = Inl TypeError"
| "getField (JObject kvs) k = (case map_of kvs k of None \<Rightarrow> Inr JUndefined | Some v \<Rightarrow> Inr v)"
| "getField v k = Inr JUndefined"

fun decimal :: "nat \<Rightarrow> string" where
  "decimal n =
    (if n < 10 then [''0123456789'' ! n]
     else decimal (n div 10) @ [''0123456789'' ! (n mod 10)])"

text \<open>
  \<open>v[0]\<close>, \<open>v[1]\<close>: an array gives its element, a string the string of its character at
  that place, an object its property named by the decimal index; out of range, and on numbers
  and booleans, the value is \<open>undefined\<close>.
\<close>

fun getIndex :: "jsval \<Rightarrow> nat \<Rightarrow> error + jsval" where
  "getIndex JUndefined i = Inl TypeError"
| "getIndex JNull i = Inl TypeError"
| "getIndex (JArray xs) i = (if i < length xs then Inr (xs ! i) else Inr JUndefined)"
| "getIndex (JString s) i = (if i < length s then Inr (JString [s ! i]) else Inr JUndefined)"
| "getIndex (JObject kvs) i =
    (case map_of kvs (decimal i) of None \<Rightarrow> Inr JUndefined | Some v \<Rightarrow> Inr v)"
| "getIndex v i = Inr JUndefined"

text \<open>
  \<open>v.map(f)\<close>: an array applies \<open>f\<close> to its elements in order, and an exception of
  \<open>f\<close> ends the call; on every other value the call throws a TypeError (\<open>undefined\<close> and
  \<open>null\<close> have no properties, and no other parsed value has a function named \<open>map\<close>).
\<close>

fun map_result :: "('a \<Rightarrow> error + 'b) \<Rightarrow> 'a list \<Rightarrow> error + 'b list" where
  "map_result f [] = Inr []"
| "map_result f (x # xs) =
    and_then (f x) (\<lambda>y. and_then (map_result f xs) (\<lambda>ys. Inr (y # ys)))"

fun array_map :: "(jsval \<Rightarrow> error + 'b) \<Rightarrow> jsval \<Rightarrow> error + 'b list" where
  "array_map f (JArray xs) = map_result f xs"
| "array_map f v = Inl TypeError"

section \<open>Geo math: \<open>calculateDistance\<close> (lines 130-140)\<close>

text \<open>\<open>Math.sqrt\<close> of a negative number is \<open>NaN\<close>.\<close>

definition Math_sqrt :: "real \<Rightarrow> real option" where
  "Math_sqrt x = (if x < 0 then None else Some (sqrt x))"

text \<open>\<open>Math.atan2(y, x)\<close>: the angle of the point \<open>(x, y)\<close>, in \<open>(-\<pi>, \<pi>]\<close>.\<close>

definition Math_atan2 :: "real \<Rightarrow> real \<Rightarrow> real" where
  "Math_atan2 y x =
    (if 0 < x then arctan (y / x)
     else if x < 0 then (if 0 \<le> y then arctan (y / x) + pi else arctan (y / x) - pi)
     else if 0 < y then pi / 2
     else if y < 0 then - (pi / 2)
     else 0)"

definition calculateDistance :: "LocationState \<Rightarrow> LocationState \<Rightarrow> real option" where
  "calculateDistance point1 point2 =
    (let R = 6371;
         dLat = (latitude point2 - latitude point1) * pi / 180;
         dLon = (longitude point2 - longitude point1) * pi / 180;
         a = sin (dLat / 2) * sin (dLat / 2) +
             cos (latitude point1 * pi / 180) * cos (latitude point2 * pi / 180) *
             sin (dLon / 2) * sin (dLon / 2)
     in case Math_sqrt a of
          None \<Rightarrow> None
        | Some sa \<Rightarrow>
            (case Math_sqrt (1 - a) of
               None \<Rightarrow> None
             | Some sb \<Rightarrow> Some (R * (2 * Math_atan2 sa sb))))"

text \<open>\<open>distance < 0.05\<close>: a comparison with \<open>NaN\<close> is false.\<close>

fun js_less :: "real option \<Rightarrow> real \<Rightarrow> bool" where
  "js_less None t = False"
| "js_less (Some d) t = (d < t)"

section \<open>The screen and its tracking sessions (lines 47-127, 153-228)\<close>

text \<open>
  \<open>fetch\<close> either rejects or resolves to a response, whatever its HTTP status;
  \<open>response.json()\<close> either rejects (the body is not JSON) or resolves to the parsed value.
\<close>

record Response =
  status :: nat
  json :: "error + jsval"

datatype PermissionStatus = Granted | Denied | Undetermined

text \<open>
  One run of the effect of lines 79-127 for a selected route is a session. Its closure holds
  the route and the variable \<open>locationSubscription\<close>: nothing while the permission request is
  pending or after a denial, a live subscription after \<open>watchPositionAsync\<close>, a removed one
  after the cleanup.
\<close>

datatype Phase = AwaitingPermission | Stopped | Subscribed | Removed

record Session =
  route :: Route
  phase :: Phase

text \<open>
  A call of the position callback (lines 95-117) that waits for its route fetch: the session
  it belongs to, and the \<open>currentPosition\<close> and \<open>selectedRoute\<close> of its closure.
\<close>

record Pending =
  owner :: nat
  currentPosition :: LocationState
  target :: Route

text \<open>
  The three state variables of \<open>HomeScreen\<close>, the console, the sessions in the order they
  were started, and the callbacks in flight.
\<close>

record HomeScreen =
  location :: "LocationState option"
  selectedRoute :: "Route option"
  routeCoordinates :: "RouteCoordinates list"
  console :: "string list"
  sessions :: "Session list"
  inflight :: "Pending list"

definition initial :: HomeScreen where
  "initial = \<lparr>location = None, selectedRoute = None, routeCoordinates = [], console = [],
     sessions = [], inflight = []\<rparr>"

subsection \<open>\<open>fetchRouteCoordinates\<close> (lines 53-77)\<close>

text \<open>A \<open>LocationState\<close> stored in \<open>routeCoordinates\<close>: the same object, its fields numbers.\<close>

definition asRouteCoordinates :: "LocationState \<Rightarrow> RouteCoordinates" where
  "asRouteCoordinates p = \<lparr>latitude = JNumber (latitude p), longitude = JNumber (longitude p)\<rparr>"

text \<open>The callback of \<open>map\<close> (lines 62-65).\<close>

definition coord_to_point :: "jsval \<Rightarrow> error + RouteCoordinates" where
  "coord_to_point coord =
    and_then (getIndex coord 1) (\<lambda>lat.
    and_then (getIndex coord 0) (\<lambda>lon.
      Inr \<lparr>latitude = lat, longitude = lon\<rparr>))"

text \<open>
  The \<open>try\<close> block (lines 55-68), given what the network did: \<open>Inl\<close> is an exception that
  leaves the block.
\<close>

definition fetch_try :: "(error + Response) \<Rightarrow> HomeScreen \<Rightarrow> error + HomeScreen" where
  "fetch_try net s =
    and_then net (\<lambda>response.
    and_then (json response) (\<lambda>data.
    and_then (getField data ''routes'') (\<lambda>routes.
      if truthy routes then
        and_then (getIndex routes 0) (\<lambda>route0.
          if truthy route0 then
            and_then (getField route0 ''geometry'') (\<lambda>geometry.
            and_then (getField geometry ''coordinates'') (\<lambda>coordinates.
            and_then (array_map coord_to_point coordinates) (\<lambda>routeCoords.
              Inr (s\<lparr>routeCoordinates := routeCoords\<rparr>))))
          else Inr s)
      else Inr s)))"

text \<open>
  The whole function: the \<open>catch\<close> block (lines 69-76) logs and stores the straight line.
  The result is \<open>Inl\<close> if an exception reaches the caller.
\<close>

definition fetchRouteCoordinates ::
  "LocationState \<Rightarrow> LocationState \<Rightarrow> (error + Response) \<Rightarrow> HomeScreen \<Rightarrow> error + HomeScreen"
where
  "fetchRouteCoordinates start end' net s =
    (case fetch_try net s of
       Inr s' \<Rightarrow> Inr s'
     | Inl err \<Rightarrow>
         Inr (s\<lparr>console := console s @ [''Error fetching route:''],
                routeCoordinates := [asRouteCoordinates start, asRouteCoordinates end']\<rparr>))"

subsection \<open>The effect of a selected route (lines 79-127)\<close>

text \<open>
  The permission request of a session resolves (lines 84-118). Unless the status is
  \<open>granted\<close> the denial is logged and the function returns; otherwise
  \<open>watchPositionAsync\<close> gives the session its subscription.
\<close>

definition permissionResolved :: "nat \<Rightarrow> PermissionStatus \<Rightarrow> HomeScreen \<Rightarrow> HomeScreen" where
  "permissionResolved i st s =
    (if st \<noteq> Granted then
       s\<lparr>console := console s @ [''Permission to access location was denied''],
         sessions := (sessions s)[i := (sessions s ! i)\<lparr>phase := Stopped\<rparr>]\<rparr>
     else s\<lparr>sessions := (sessions s)[i := (sessions s ! i)\<lparr>phase := Subscribed\<rparr>]\<rparr>)"

text \<open>
  The position callback up to its \<open>await\<close> (lines 96-107): it builds \<open>currentPosition\<close>
  from the coordinates of the update, stores it, and starts the route fetch. Of the fields of
  \<open>newLocation.coords\<close> only the two that are read are modelled.
\<close>

definition positionCallback_begin :: "nat \<Rightarrow> Route \<Rightarrow> LocationState \<Rightarrow> HomeScreen \<Rightarrow> HomeScreen" where
  "positionCallback_begin i r coords s =
    (let currentPosition = \<lparr>latitude = latitude coords, longitude = longitude coords\<rparr>
     in s\<lparr>location := Some currentPosition,
          inflight := inflight s @ [\<lparr>owner = i, currentPosition = currentPosition, target = r\<rparr>]\<rparr>)"

text \<open>
  The rest of the callback, once the network has answered (lines 104-116):
  \<open>fetchRouteCoordinates\<close> stores its path, then the arrival check runs.
\<close>

definition positionCallback_resume :: "Pending \<Rightarrow> (error + Response) \<Rightarrow> HomeScreen \<Rightarrow> error + HomeScreen" where
  "positionCallback_resume p net s =
    and_then (fetchRouteCoordinates (currentPosition p) (endLocation (target p)) net s) (\<lambda>s1.
      let distance = calculateDistance (currentPosition p) (endLocation (target p))
      in if js_less distance 0.05 then Inr (s1\<lparr>routeCoordinates := []\<rparr>) else Inr s1)"

text \<open>The cleanup of a session (lines 121-125) removes the subscription if there is one.\<close>

definition cleanup :: "Session \<Rightarrow> Session" where
  "cleanup ss = (if phase ss = Subscribed then ss\<lparr>phase := Removed\<rparr> else ss)"

subsection \<open>The presses (lines 161, 215, 222)\<close>

text \<open>
  Pressing a route of the catalog sets the selection; the effect then runs and starts a
  session, which requests the permission.
\<close>

definition pressRoute :: "Route \<Rightarrow> HomeScreen \<Rightarrow> HomeScreen" where
  "pressRoute r s =
    s\<lparr>selectedRoute := Some r,
      sessions := sessions s @ [\<lparr>route = r, phase = AwaitingPermission\<rparr>]\<rparr>"

text \<open>
  Pressing Back sets the selection to \<open>null\<close>; the cleanup of the current session, the
  last one started, then runs.
\<close>

fun cleanup_current :: "Session list \<Rightarrow> Session list" where
  "cleanup_current [] = []"
| "cleanup_current [ss] = [cleanup ss]"
| "cleanup_current (ss # rest) = ss # cleanup_current rest"

definition pressBack :: "HomeScreen \<Rightarrow> HomeScreen" where
  "pressBack s = s\<lparr>selectedRoute := None, sessions := cleanup_current (sessions s)\<rparr>"

text \<open>\<open>centerOnLocation\<close> (lines 142-151) moves the camera of the map and changes no state.\<close>

definition centerOnLocation :: "HomeScreen \<Rightarrow> HomeScreen" where
  "centerOnLocation s = s"

subsection \<open>What is rendered (lines 153-227)\<close>

datatype View =
  Catalog "string list"
  | MapScreen "LocationState option" LocationState "RouteCoordinates list option"

definition render :: "HomeScreen \<Rightarrow> View" where
  "render s =
    (case selectedRoute s of
       None \<Rightarrow> Catalog (map name ROUTES)
     | Some r \<Rightarrow>
         MapScreen (location s) (endLocation r)
           (if length (routeCoordinates s) > 0 then Some (routeCoordinates s) else None))"

fun polyline :: "View \<Rightarrow> RouteCoordinates list option" where
  "polyline (Catalog names) = None"
| "polyline (MapScreen marker destination line) = line"

subsection \<open>Events of the event loop\<close>

text \<open>
  The screen changes through presses, the answers of the permission requests, the position
  updates of the live subscriptions, and the answers of the routing service. An event that
  cannot happen in a state (a control that is not on the screen, an answer nobody waits for,
  an update of a session that is not subscribed) gives \<open>None\<close>. The catalog offers the
  routes of \<open>ROUTES\<close> only. Each event is handled without interruption.
\<close>

datatype Event =
  PressRoute Route
  | PressBack
  | PressCenter
  | PermissionResolved nat PermissionStatus
  | PositionUpdate nat LocationState
  | RouteFetched nat "error + Response"

fun step :: "Event \<Rightarrow> HomeScreen \<Rightarrow> HomeScreen option" where
  "step (PressRoute r) s =
    (if selectedRoute s = None \<and> r \<in> set ROUTES then Some (pressRoute r s) else None)"
| "step PressBack s =
    (if selectedRoute s \<noteq> None then Some (pressBack s) else None)"
| "step PressCenter s =
    (if selectedRoute s \<noteq> None then Some (centerOnLocation s) else None)"
| "step (PermissionResolved i st) s =
    (if i < length (sessions s) \<and> phase (sessions s ! i) = AwaitingPermission
     then Some (permissionResolved i st s) else None)"
| "step (PositionUpdate i coords) s =
    (if i < length (sessions s) \<and> phase (sessions s ! i) = Subscribed
     then Some (positionCallback_begin i (route (sessions s ! i)) coords s) else None)"
| "step (RouteFetched k net) s =
    (if k < length (inflight s) then
       (let s0 = s\<lparr>inflight := take k (inflight s) @ drop (Suc k) (inflight s)\<rparr>
        in case positionCallback_resume (inflight s ! k) net s0 of
             Inr s' \<Rightarrow> Some s'
           | Inl err \<Rightarrow> Some s0)
     else None)"

fun run :: "Event list \<Rightarrow> HomeScreen \<Rightarrow> HomeScreen option" where
  "run [] s = Some s"
| "run (e # es) s = (case step e s of None \<Rightarrow> None | Some s' \<Rightarrow> run es s')"

subsection \<open>The constant \<open>a\<close> of \<open>calculateDistance\<close> (lines 134-137)\<close>

text \<open>The haversine term, named so that the lemmas below can speak about it.\<close>

definition haversine_a :: "LocationState \<Rightarrow> LocationState \<Rightarrow> real" where
  "haversine_a point1 point2 =
     sin ((latitude point2 - latitude point1) * pi / 180 / 2) *
     sin ((latitude point2 - latitude point1) * pi / 180 / 2) +
     cos (latitude point1 * pi / 180) * cos (latitude point2 * pi / 180) *
     sin ((longitude point2 - longitude point1) * pi / 180 / 2) *
     sin ((longitude point2 - longitude point1) * pi / 180 / 2)"

section \<open>Properties of the distance\<close>

lemma calculateDistance_a:
  "calculateDistance p q =
    (case Math_sqrt (haversine_a p q) of None \<Rightarrow> None
     | Some sa \<Rightarrow> (case Math_sqrt (1 - haversine_a p q) of None \<Rightarrow> None
        | Some sb \<Rightarrow> Some (6371 * (2 * Math_atan2 sa sb))))"
  by (simp only: calculateDistance_def Let_def haversine_a_def)

text \<open>
  Claim C9. The distance from a coordinate to itself is 0: for every \<open>a\<close>,
  \<open>calculateDistance a a\<close> is the number 0 (and not \<open>NaN\<close>).
\<close>

theorem calculateDistance_self: "calculateDistance a a = Some 0"
  by (simp add: calculateDistance_def Math_sqrt_def Math_atan2_def)




lemma Math_sqrt_nonneg: "0 \<le> x \<Longrightarrow> Math_sqrt x = Some (sqrt x)"
  by (simp add: Math_sqrt_def)

lemma Math_atan2_nonneg: "0 \<le> y \<Longrightarrow> 0 \<le> x \<Longrightarrow> 0 \<le> Math_atan2 y x"
  by (simp add: Math_atan2_def zero_le_arctan_iff)

lemma sin_half_square: "sin (x / 2) * sin (x / 2) = (1 - cos x) / 2" for x :: real
  using sin_times_sin [of "x / 2" "x / 2"] by simp

lemma convex_unit:
  fixes t A B :: real
  assumes "0 \<le> t" "t \<le> 1" "0 \<le> A" "A \<le> 1" "0 \<le> B" "B \<le> 1"
  shows "0 \<le> (1 - t) * A + t * B" and "(1 - t) * A + t * B \<le> 1"
proof -
  show "0 \<le> (1 - t) * A + t * B" using assms by simp
  have "(1 - t) * A \<le> (1 - t) * 1" using assms by (intro mult_left_mono) simp_all
  moreover have "t * B \<le> t * 1" using assms by (intro mult_left_mono) simp_all
  ultimately show "(1 - t) * A + t * B \<le> 1" by simp
qed

lemma half_unit:
  fixes c :: real
  assumes "- 1 \<le> c" "c \<le> 1"
  shows "0 \<le> (1 - c) / 2 \<and> (1 - c) / 2 \<le> 1" and "0 \<le> (1 + c) / 2 \<and> (1 + c) / 2 \<le> 1"
  using assms by auto

lemma haversine_a_range: "0 \<le> haversine_a p q \<and> haversine_a p q \<le> 1"
proof -
  define x1 where "x1 = latitude p * pi / 180"
  define x2 where "x2 = latitude q * pi / 180"
  define v where "v = (longitude q - longitude p) * pi / 180 / 2"
  define t where "t = sin v * sin v"
  define A where "A = (1 - cos (x2 - x1)) / 2"
  define B where "B = (1 + cos (x1 + x2)) / 2"
  have u: "(latitude q - latitude p) * pi / 180 = x2 - x1"
    by (simp add: x1_def x2_def field_simps)
  have h: "haversine_a p q = A + cos x1 * cos x2 * t"
    unfolding haversine_a_def u A_def t_def v_def x1_def x2_def
    by (simp only: sin_half_square mult.assoc)
  have "cos x1 * cos x2 = B - A"
    by (simp add: A_def B_def cos_add cos_diff field_simps)
  then have h': "haversine_a p q = (1 - t) * A + t * B"
    by (simp only: h) (simp add: algebra_simps)
  have t: "0 \<le> t" "t \<le> 1"
  proof -
    show "0 \<le> t" by (simp add: t_def)
    have "t = (sin v)\<^sup>2" by (simp add: t_def power2_eq_square)
    also have "\<dots> \<le> 1" using abs_sin_le_one [of v] by (simp add: power2_le_iff_abs_le abs_square_le_1)
    finally show "t \<le> 1" .
  qed
  have A: "0 \<le> A \<and> A \<le> 1"
    unfolding A_def by (rule half_unit(1) [OF cos_ge_minus_one cos_le_one])
  have B: "0 \<le> B \<and> B \<le> 1"
    unfolding B_def by (rule half_unit(2) [OF cos_ge_minus_one cos_le_one])
  show ?thesis
    using convex_unit [OF t, of A B] A B by (simp add: h')
qed

lemma calculateDistance_exact:
  "\<exists>d. calculateDistance p q = Some d \<and> 0 \<le> d"
proof -
  have r: "0 \<le> haversine_a p q" "0 \<le> 1 - haversine_a p q" using haversine_a_range [of p q] by simp_all
  have "0 \<le> Math_atan2 (sqrt (haversine_a p q)) (sqrt (1 - haversine_a p q))"
    using r by (intro Math_atan2_nonneg) simp_all
  then show ?thesis
    by (simp add: calculateDistance_a Math_sqrt_nonneg [OF r(1)] Math_sqrt_nonneg [OF r(2)])
qed

lemma Math_atan2_sin_cos:
  assumes "0 \<le> v" "v < pi / 2"
  shows "Math_atan2 (sin v) (cos v) = v"
proof -
  have c: "0 < cos v" using assms by (intro cos_gt_zero_pi) simp_all
  have "arctan (sin v / cos v) = v"
    using arctan_tan [of v] assms by (simp add: tan_def)
  then show ?thesis using c by (simp add: Math_atan2_def)
qed

lemma distance_same_meridian:
  assumes "0 \<le> y" "y < 180"
  shows "calculateDistance \<lparr>latitude = x - y, longitude = l\<rparr> \<lparr>latitude = x, longitude = l\<rparr>
         = Some (6371 * (y * pi / 180))"
proof -
  define v where "v = y * pi / 180 / 2"
  have v: "0 \<le> v" "v < pi / 2" using assms by (simp_all add: v_def)
  have s: "0 \<le> sin v" using v by (intro sin_ge_zero) simp_all
  have c: "0 < cos v" using v by (intro cos_gt_zero_pi) simp_all
  have h: "haversine_a \<lparr>latitude = x - y, longitude = l\<rparr> \<lparr>latitude = x, longitude = l\<rparr> = sin v * sin v"
    by (simp add: haversine_a_def v_def)
  have h1: "1 - sin v * sin v = cos v * cos v"
    using sin_cos_squared_add3 [of v] by linarith
  have q1: "Math_sqrt (sin v * sin v) = Some (sin v)"
    using s by (simp add: Math_sqrt_def)
  have q2: "Math_sqrt (1 - sin v * sin v) = Some (cos v)"
    unfolding h1 using c by (simp add: Math_sqrt_def)
  have "calculateDistance \<lparr>latitude = x - y, longitude = l\<rparr> \<lparr>latitude = x, longitude = l\<rparr>
        = Some (6371 * (2 * Math_atan2 (sin v) (cos v)))"
    by (simp only: calculateDistance_a h q1 q2 option.case)
  also have "\<dots> = Some (6371 * (2 * v))"
    by (simp only: Math_atan2_sin_cos [OF v])
  also have "2 * v = y * pi / 180"
    by (simp add: v_def)
  finally show ?thesis .
qed

lemma bell_far:
  "\<not> js_less (calculateDistance \<lparr>latitude = 33.8032, longitude = -111.7761\<rparr>
      \<lparr>latitude = 34.8032, longitude = -111.7761\<rparr>) 0.05"
proof -
  have "6371 * (1 * pi / 180) \<ge> (0.05 :: real)" using pi_ge_two by simp
  then show ?thesis
    using distance_same_meridian [of 1 "34.8032" "-111.7761"] by simp
qed

lemma bell_near:
  "js_less (calculateDistance \<lparr>latitude = 34.8030, longitude = -111.7761\<rparr>
      \<lparr>latitude = 34.8032, longitude = -111.7761\<rparr>) 0.05"
proof -
  have "6371 * (0.0002 * pi / 180) < (0.05 :: real)" using pi_less_4 by simp
  then show ?thesis
    using distance_same_meridian [of "0.0002" "34.8032" "-111.7761"] by simp
qed

lemma bell_boundary:
  "calculateDistance \<lparr>latitude = 34.8032 - 9 / (6371 * pi), longitude = -111.7761\<rparr>
      \<lparr>latitude = 34.8032, longitude = -111.7761\<rparr> = Some 0.05"
proof -
  have "9 / (6371 * pi) < 180" using pi_ge_two by (simp add: field_simps)
  then show ?thesis
    using distance_same_meridian [of "9 / (6371 * pi)" "34.8032" "-111.7761"] by simp
qed

section \<open>Properties of the route fetch\<close>

text \<open>
  Claim C6. Whatever the coordinates, the state, and the behaviour of the routing call
  (\<open>fetch\<close> rejects, \<open>response.json()\<close> rejects, or a body of any shape arrives),
  \<open>fetchRouteCoordinates\<close> returns a state: no exception reaches its caller.
\<close>

theorem fetch_never_raises: "\<exists>s'. fetchRouteCoordinates start end' net s = Inr s'"
  by (simp add: fetchRouteCoordinates_def split: sum.splits)





lemma map_result_pairs:
  "map_result coord_to_point (map (\<lambda>(lon, lat). JArray [JNumber lon, JNumber lat]) pairs) =
     Inr (map (\<lambda>(lon, lat). \<lparr>latitude = JNumber lat, longitude = JNumber lon\<rparr>) pairs)"
  by (induction pairs) (auto simp: coord_to_point_def)

text \<open>
  Claim C4. For a response whose body is an object with an array \<open>routes\<close>, whose first
  route has a \<open>geometry\<close> with the array \<open>coordinates\<close> of pairs
  \<open>[longitude, latitude]\<close>, \<open>fetchRouteCoordinates\<close> changes the path only; the path has
  the length of that array and, in the same order, its i-th element has the second component
  of the i-th pair as latitude and the first as longitude.
\<close>

theorem fetch_maps_route:
  assumes "json r = Inr (JObject body)"
    and "map_of body ''routes'' = Some (JArray (JObject firstRoute # others))"
    and "map_of firstRoute ''geometry'' = Some (JObject geometry)"
    and "map_of geometry ''coordinates'' =
           Some (JArray (map (\<lambda>(lon, lat). JArray [JNumber lon, JNumber lat]) pairs))"
  shows "\<exists>s'. fetchRouteCoordinates start end' (Inr r) s = Inr s'
      \<and> s' = s\<lparr>routeCoordinates := routeCoordinates s'\<rparr>
      \<and> length (routeCoordinates s') = length pairs
      \<and> (\<forall>i < length pairs.
            latitude (routeCoordinates s' ! i) = JNumber (snd (pairs ! i)) \<and>
            longitude (routeCoordinates s' ! i) = JNumber (fst (pairs ! i)))"
proof -
  have "fetch_try (Inr r) s =
      Inr (s\<lparr>routeCoordinates := map (\<lambda>(lon, lat). \<lparr>latitude = JNumber lat, longitude = JNumber lon\<rparr>) pairs\<rparr>)"
    using assms by (simp add: fetch_try_def map_result_pairs)
  then show ?thesis
    by (simp add: fetchRouteCoordinates_def split_beta)
qed

text \<open>Claim C4 at a response 200 with a route of three points.\<close>

theorem fetch_maps_route_witness:
  "\<exists>s'. fetchRouteCoordinates \<lparr>latitude = 34.8030, longitude = -111.7760\<rparr>
      \<lparr>latitude = 34.8032, longitude = -111.7761\<rparr>
      (Inr \<lparr>status = 200, json = Inr (JObject [(''code'', JString ''Ok''),
         (''routes'', JArray [JObject [(''geometry'', JObject [(''coordinates'',
            JArray [JArray [JNumber (-111.7760), JNumber 34.8030],
                    JArray [JNumber (-111.77605), JNumber 34.8031],
                    JArray [JNumber (-111.7761), JNumber 34.8032]]),
            (''type'', JString ''LineString'')])]])])\<rparr>) initial = Inr s'
     \<and> s' = initial\<lparr>routeCoordinates := routeCoordinates s'\<rparr>
     \<and> length (routeCoordinates s') = 3
     \<and> latitude (routeCoordinates s' ! 0) = JNumber 34.8030
     \<and> longitude (routeCoordinates s' ! 0) = JNumber (-111.7760)
     \<and> latitude (routeCoordinates s' ! 2) = JNumber 34.8032
     \<and> longitude (routeCoordinates s' ! 2) = JNumber (-111.7761)"
proof -
  let ?pairs = "[(-111.7760, 34.8030), (-111.77605, 34.8031), (-111.7761, 34.8032)] :: (real \<times> real) list"
  let ?geometry = "[(''coordinates'',
            JArray [JArray [JNumber (-111.7760), JNumber 34.8030],
                    JArray [JNumber (-111.77605), JNumber 34.8031],
                    JArray [JNumber (-111.7761), JNumber 34.8032]]),
            (''type'', JString ''LineString'')]"
  let ?firstRoute = "[(''geometry'', JObject ?geometry)]"
  let ?body = "[(''code'', JString ''Ok''), (''routes'', JArray [JObject ?firstRoute])]"
  let ?r = "\<lparr>status = 200, json = Inr (JObject ?body)\<rparr>"
  have h: "json ?r = Inr (JObject ?body)"
    "map_of ?body ''routes'' = Some (JArray (JObject ?firstRoute # []))"
    "map_of ?firstRoute ''geometry'' = Some (JObject ?geometry)"
    "map_of ?geometry ''coordinates'' =
       Some (JArray (map (\<lambda>(lon, lat). JArray [JNumber lon, JNumber lat]) ?pairs))"
    by simp_all
  obtain s' where s': "fetchRouteCoordinates \<lparr>latitude = 34.8030, longitude = -111.7760\<rparr>
      \<lparr>latitude = 34.8032, longitude = -111.7761\<rparr> (Inr ?r) initial = Inr s'"
      "s' = initial\<lparr>routeCoordinates := routeCoordinates s'\<rparr>"
      "length (routeCoordinates s') = length ?pairs"
    and nth: "\<forall>i < length ?pairs.
            latitude (routeCoordinates s' ! i) = JNumber (snd (?pairs ! i)) \<and>
            longitude (routeCoordinates s' ! i) = JNumber (fst (?pairs ! i))"
    using fetch_maps_route [OF h] by blast
  have "latitude (routeCoordinates s' ! 0) = JNumber 34.8030"
    "longitude (routeCoordinates s' ! 0) = JNumber (-111.7760)"
    "latitude (routeCoordinates s' ! 2) = JNumber 34.8032"
    "longitude (routeCoordinates s' ! 2) = JNumber (-111.7761)"
    using nth by simp_all
  then show ?thesis using s' by (intro exI [of _ s']) simp
qed

section \<open>Properties of the position callback and of the sessions\<close>

lemma and_then_cases:
  assumes "and_then x f = Inr y"
  obtains v where "x = Inr v" "f v = Inr y"
  using assms by (cases x) simp_all

lemma fetch_try_cases:
  assumes "fetch_try net s = Inr s'"
  shows "s' = s \<or> (\<exists>rc. s' = s\<lparr>routeCoordinates := rc\<rparr>)"
  using assms unfolding fetch_try_def
  apply (elim and_then_cases)
  apply (simp split: if_splits)
  apply (elim and_then_cases)
  apply (simp split: if_splits)
  apply (elim and_then_cases)
  apply blast
  done

lemma fetch_try_shape:
  assumes "fetch_try net s = Inr s'"
  shows "\<exists>rc. s' = s\<lparr>routeCoordinates := rc\<rparr>"
proof -
  have "s = s\<lparr>routeCoordinates := routeCoordinates s\<rparr>" by simp
  then show ?thesis using fetch_try_cases [OF assms] by blast
qed

lemma fetch_shape:
  "\<exists>c rc. fetchRouteCoordinates a b net s = Inr (s\<lparr>console := c, routeCoordinates := rc\<rparr>)"
proof (cases "fetch_try net s")
  case (Inl e)
  then show ?thesis by (simp add: fetchRouteCoordinates_def) blast
next
  case (Inr s')
  then obtain rc where "s' = s\<lparr>routeCoordinates := rc\<rparr>" using fetch_try_shape by blast
  then have "fetchRouteCoordinates a b net s = Inr (s\<lparr>console := console s, routeCoordinates := rc\<rparr>)"
    using Inr by (simp add: fetchRouteCoordinates_def)
  then show ?thesis by blast
qed

lemma resume_shape:
  "\<exists>c rc. positionCallback_resume p net s = Inr (s\<lparr>console := c, routeCoordinates := rc\<rparr>)
     \<and> (js_less (calculateDistance (currentPosition p) (endLocation (target p))) 0.05 \<longrightarrow> rc = [])
     \<and> (\<not> js_less (calculateDistance (currentPosition p) (endLocation (target p))) 0.05 \<longrightarrow>
          fetchRouteCoordinates (currentPosition p) (endLocation (target p)) net s
            = Inr (s\<lparr>console := c, routeCoordinates := rc\<rparr>))"
proof -
  obtain c rc where f: "fetchRouteCoordinates (currentPosition p) (endLocation (target p)) net s
      = Inr (s\<lparr>console := c, routeCoordinates := rc\<rparr>)"
    using fetch_shape by blast
  show ?thesis
  proof (cases "js_less (calculateDistance (currentPosition p) (endLocation (target p))) 0.05")
    case True
    then have "positionCallback_resume p net s = Inr (s\<lparr>console := c, routeCoordinates := []\<rparr>)"
      by (simp add: positionCallback_resume_def f)
    then show ?thesis using True by blast
  next
    case False
    then have "positionCallback_resume p net s = Inr (s\<lparr>console := c, routeCoordinates := rc\<rparr>)"
      by (simp add: positionCallback_resume_def f)
    then show ?thesis using False f by blast
  qed
qed

lemma step_RouteFetched:
  assumes "k < length (inflight s)"
  shows "\<exists>c rc. step (RouteFetched k net) s =
      Some (s\<lparr>inflight := take k (inflight s) @ drop (Suc k) (inflight s), console := c,
              routeCoordinates := rc\<rparr>)
     \<and> (js_less (calculateDistance (currentPosition (inflight s ! k))
            (endLocation (target (inflight s ! k)))) 0.05 \<longrightarrow> rc = [])"
proof -
  let ?s0 = "s\<lparr>inflight := take k (inflight s) @ drop (Suc k) (inflight s)\<rparr>"
  obtain c rc where r: "positionCallback_resume (inflight s ! k) net ?s0
        = Inr (?s0\<lparr>console := c, routeCoordinates := rc\<rparr>)"
    and a: "js_less (calculateDistance (currentPosition (inflight s ! k))
            (endLocation (target (inflight s ! k)))) 0.05 \<longrightarrow> rc = []"
    using resume_shape [of "inflight s ! k" net ?s0] by blast
  have "step (RouteFetched k net) s = Some (?s0\<lparr>console := c, routeCoordinates := rc\<rparr>)"
    using assms r by (simp add: Let_def)
  then show ?thesis using a by blast
qed

lemma run_invariant:
  assumes "\<And>e s s'. P s \<Longrightarrow> step e s = Some s' \<Longrightarrow> P s'"
    and "P s" and "run es s = Some s'"
  shows "P s'"
  using assms(2,3)
proof (induction es arbitrary: s)
  case Nil
  then show ?case by simp
next
  case (Cons e es)
  then show ?case using assms(1) by (auto split: option.splits)
qed

text \<open>
  Claim C3. When the callback of a position update resumes with the computed distance
  \<open>d\<close>: if \<open>d < 0.05\<close> the path is empty afterwards; if \<open>d = 0.05\<close> the arrival check
  clears nothing, and the callback leaves exactly what \<open>fetchRouteCoordinates\<close> stored.
\<close>

theorem arrival_strict:
  assumes "calculateDistance (currentPosition p) (endLocation (target p)) = Some d"
  shows "(d < 0.05 \<longrightarrow> (\<exists>s'. positionCallback_resume p net s = Inr s' \<and> routeCoordinates s' = []))
       \<and> (d = 0.05 \<longrightarrow> positionCallback_resume p net s =
             fetchRouteCoordinates (currentPosition p) (endLocation (target p)) net s)"
  using resume_shape [of p net s] assms by auto

text \<open>
  Claim C3 at Bell Rock: from 0.0002 degrees of latitude away the path is cleared; from the
  point on the same meridian at exactly 0.05 km the straight line of the failed fetch stays.
\<close>

theorem arrival_strict_witness:
  "(\<exists>s'. positionCallback_resume
        \<lparr>owner = 0, currentPosition = \<lparr>latitude = 34.8030, longitude = -111.7761\<rparr>,
          target = \<lparr>id_route = 2, name = ''Bell Rock Pathway'',
             endLocation = \<lparr>latitude = 34.8032, longitude = -111.7761\<rparr>\<rparr>\<rparr>
        (Inl NetworkError) initial = Inr s' \<and> routeCoordinates s' = [])
   \<and> (\<exists>s'. positionCallback_resume
        \<lparr>owner = 0, currentPosition = \<lparr>latitude = 34.8032 - 9 / (6371 * pi), longitude = -111.7761\<rparr>,
          target = \<lparr>id_route = 2, name = ''Bell Rock Pathway'',
             endLocation = \<lparr>latitude = 34.8032, longitude = -111.7761\<rparr>\<rparr>\<rparr>
        (Inl NetworkError) initial = Inr s' \<and> length (routeCoordinates s') = 2)"
proof -
  obtain d where d: "calculateDistance \<lparr>latitude = 34.8030, longitude = -111.7761\<rparr>
      \<lparr>latitude = 34.8032, longitude = -111.7761\<rparr> = Some d" "d < 0.05"
    using bell_near by (cases "calculateDistance \<lparr>latitude = 34.8030, longitude = -111.7761\<rparr>
      \<lparr>latitude = 34.8032, longitude = -111.7761\<rparr>") auto
  show ?thesis
    using arrival_strict [of "\<lparr>owner = 0, currentPosition = \<lparr>latitude = 34.8030, longitude = -111.7761\<rparr>,
          target = \<lparr>id_route = 2, name = ''Bell Rock Pathway'',
             endLocation = \<lparr>latitude = 34.8032, longitude = -111.7761\<rparr>\<rparr>\<rparr>" d "Inl NetworkError" initial]
      arrival_strict [of "\<lparr>owner = 0, currentPosition = \<lparr>latitude = 34.8032 - 9 / (6371 * pi), longitude = -111.7761\<rparr>,
          target = \<lparr>id_route = 2, name = ''Bell Rock Pathway'',
             endLocation = \<lparr>latitude = 34.8032, longitude = -111.7761\<rparr>\<rparr>\<rparr>" "0.05" "Inl NetworkError" initial]
      d bell_boundary
    by (simp add: fetchRouteCoordinates_def fetch_try_def)
qed


lemma cleanup_current_length: "length (cleanup_current xs) = length xs"
  by (induction xs rule: cleanup_current.induct) simp_all

lemma cleanup_current_nth:
  "j < length xs \<Longrightarrow>
     cleanup_current xs ! j = xs ! j \<or> cleanup_current xs ! j = cleanup (xs ! j)"
proof (induction xs arbitrary: j rule: cleanup_current.induct)
  case 1
  then show ?case by simp
next
  case (2 ss)
  then show ?case by simp
next
  case (3 ss v va)
  then show ?case by (cases j) simp_all
qed

lemma cleanup_phase:
  "phase (cleanup ss) = phase ss \<or> (phase ss = Subscribed \<and> phase (cleanup ss) = Removed)"
  by (simp add: cleanup_def)

lemma cleanup_current_phase:
  assumes "j < length xs"
  shows "phase (cleanup_current xs ! j) = phase (xs ! j)
       \<or> (phase (xs ! j) = Subscribed \<and> phase (cleanup_current xs ! j) = Removed)"
  using cleanup_current_nth [OF assms] cleanup_phase [of "xs ! j"] by auto

lemma set_remove_nth: "set (take k xs @ drop (Suc k) xs) \<subseteq> set xs"
  using set_take_subset [of k xs] set_drop_subset [of "Suc k" xs] by auto

lemma pending_owner_step:
  assumes "\<forall>p\<in>set (inflight s). owner p < length (sessions s)
              \<and> phase (sessions s ! owner p) \<noteq> AwaitingPermission
              \<and> phase (sessions s ! owner p) \<noteq> Stopped"
    and "step e s = Some s'"
  shows "\<forall>p\<in>set (inflight s'). owner p < length (sessions s')
              \<and> phase (sessions s' ! owner p) \<noteq> AwaitingPermission
              \<and> phase (sessions s' ! owner p) \<noteq> Stopped"
proof (cases e)
  case (PressRoute r)
  then have s': "s' = pressRoute r s" using assms(2) by (simp split: if_splits)
  show ?thesis
  proof
    fix p assume "p \<in> set (inflight s')"
    then have p: "p \<in> set (inflight s)" by (simp add: s' pressRoute_def)
    then have o: "owner p < length (sessions s)"
      and ph: "phase (sessions s ! owner p) \<noteq> AwaitingPermission"
        "phase (sessions s ! owner p) \<noteq> Stopped"
      using assms(1) by blast+
    show "owner p < length (sessions s') \<and> phase (sessions s' ! owner p) \<noteq> AwaitingPermission
            \<and> phase (sessions s' ! owner p) \<noteq> Stopped"
      using o ph by (simp add: s' pressRoute_def nth_append)
  qed
next
  case PressBack
  then have s': "s' = pressBack s" using assms(2) by (simp split: if_splits)
  show ?thesis
  proof
    fix p assume "p \<in> set (inflight s')"
    then have p: "p \<in> set (inflight s)" by (simp add: s' pressBack_def)
    then have o: "owner p < length (sessions s)" using assms(1) by blast
    show "owner p < length (sessions s') \<and> phase (sessions s' ! owner p) \<noteq> AwaitingPermission
            \<and> phase (sessions s' ! owner p) \<noteq> Stopped"
      using assms(1) p cleanup_current_phase [OF o]
      by (auto simp: s' pressBack_def cleanup_current_length)
  qed
next
  case PressCenter
  then show ?thesis using assms by (auto simp: centerOnLocation_def split: if_splits)
next
  case (PermissionResolved j st)
  then show ?thesis using assms
    by (auto simp: permissionResolved_def nth_list_update split: if_splits)
next
  case (PositionUpdate j coords)
  then show ?thesis using assms
    by (auto simp: positionCallback_begin_def Let_def split: if_splits)
next
  case (RouteFetched k net)
  then have k: "k < length (inflight s)" using assms(2) by (simp split: if_splits)
  obtain c rc where "step (RouteFetched k net) s =
      Some (s\<lparr>inflight := take k (inflight s) @ drop (Suc k) (inflight s), console := c,
              routeCoordinates := rc\<rparr>)"
    using step_RouteFetched [OF k] by blast
  then have "sessions s' = sessions s" "set (inflight s') \<subseteq> set (inflight s)"
    using assms(2) RouteFetched set_remove_nth [of k "inflight s"] by auto
  then show ?thesis using assms(1) by auto
qed

lemma stopped_step:
  assumes "i < length (sessions s) \<and> phase (sessions s ! i) = Stopped
             \<and> (\<forall>p\<in>set (inflight s). owner p \<noteq> i)"
    and "step e s = Some s'"
  shows "i < length (sessions s') \<and> phase (sessions s' ! i) = Stopped
             \<and> (\<forall>p\<in>set (inflight s'). owner p \<noteq> i)"
proof (cases e)
  case (PressRoute r)
  then show ?thesis using assms
    by (auto simp: pressRoute_def nth_append split: if_splits)
next
  case PressBack
  then have s': "s' = pressBack s" using assms(2) by (simp split: if_splits)
  have i: "i < length (sessions s)" using assms(1) by simp
  show ?thesis
    using assms(1) cleanup_current_phase [OF i]
    by (auto simp: s' pressBack_def cleanup_current_length)
next
  case PressCenter
  then show ?thesis using assms by (auto simp: centerOnLocation_def split: if_splits)
next
  case (PermissionResolved j st)
  then show ?thesis using assms
    by (auto simp: permissionResolved_def nth_list_update split: if_splits)
next
  case (PositionUpdate j coords)
  then show ?thesis using assms
    by (auto simp: positionCallback_begin_def Let_def split: if_splits)
next
  case (RouteFetched k net)
  then have k: "k < length (inflight s)" using assms(2) by (simp split: if_splits)
  obtain c rc where "step (RouteFetched k net) s =
      Some (s\<lparr>inflight := take k (inflight s) @ drop (Suc k) (inflight s), console := c,
              routeCoordinates := rc\<rparr>)"
    using step_RouteFetched [OF k] by blast
  then have "sessions s' = sessions s" "set (inflight s') \<subseteq> set (inflight s)"
    using assms(2) RouteFetched set_remove_nth [of k "inflight s"] by auto
  then show ?thesis using assms(1) by auto
qed

lemma reachable_pending_owner:
  assumes "run es initial = Some s"
  shows "\<forall>p\<in>set (inflight s). owner p < length (sessions s)
              \<and> phase (sessions s ! owner p) \<noteq> AwaitingPermission
              \<and> phase (sessions s ! owner p) \<noteq> Stopped"
proof (rule run_invariant [where P = "\<lambda>s. \<forall>p\<in>set (inflight s). owner p < length (sessions s)
              \<and> phase (sessions s ! owner p) \<noteq> AwaitingPermission
              \<and> phase (sessions s ! owner p) \<noteq> Stopped", OF _ _ assms])
  show "\<forall>p\<in>set (inflight initial). owner p < length (sessions initial)
              \<and> phase (sessions initial ! owner p) \<noteq> AwaitingPermission
              \<and> phase (sessions initial ! owner p) \<noteq> Stopped"
    by (simp add: initial_def)
qed (rule pending_owner_step)

text \<open>
  Claim C7. In a reachable state, when the permission request of a session resolves with a
  status other than \<open>granted\<close>, the denial is logged and the position, the path, the
  selection and the callbacks in flight stay as they are; and in every later state the
  session is still stopped, no callback in flight belongs to it, and no position update of
  it can happen: it has no subscription.
\<close>

theorem denied_session_idle:
  assumes "run es0 initial = Some s"
    and "i < length (sessions s)" and "phase (sessions s ! i) = AwaitingPermission"
    and "st \<noteq> Granted"
  shows "\<exists>s1. step (PermissionResolved i st) s = Some s1
      \<and> location s1 = location s \<and> routeCoordinates s1 = routeCoordinates s
      \<and> selectedRoute s1 = selectedRoute s \<and> inflight s1 = inflight s
      \<and> console s1 = console s @ [''Permission to access location was denied'']
      \<and> (\<forall>es s'. run es s1 = Some s' \<longrightarrow>
            phase (sessions s' ! i) = Stopped
          \<and> (\<forall>p\<in>set (inflight s'). owner p \<noteq> i)
          \<and> (\<forall>coords. step (PositionUpdate i coords) s' = None))"
proof -
  let ?s1 = "permissionResolved i st s"
  have 1: "step (PermissionResolved i st) s = Some ?s1" using assms(2,3) by simp
  have no: "\<forall>p\<in>set (inflight s). owner p \<noteq> i"
    using reachable_pending_owner [OF assms(1)] assms(3) by auto
  have inv: "i < length (sessions ?s1) \<and> phase (sessions ?s1 ! i) = Stopped
             \<and> (\<forall>p\<in>set (inflight ?s1). owner p \<noteq> i)"
    using assms(2,4) no by (simp add: permissionResolved_def)
  have later: "i < length (sessions s') \<and> phase (sessions s' ! i) = Stopped
             \<and> (\<forall>p\<in>set (inflight s'). owner p \<noteq> i)" if "run es ?s1 = Some s'" for es s'
    by (rule run_invariant [where P = "\<lambda>s. i < length (sessions s) \<and> phase (sessions s ! i) = Stopped
             \<and> (\<forall>p\<in>set (inflight s). owner p \<noteq> i)", OF _ inv that]) (rule stopped_step)
  have "\<forall>es s'. run es ?s1 = Some s' \<longrightarrow>
            phase (sessions s' ! i) = Stopped
          \<and> (\<forall>p\<in>set (inflight s'). owner p \<noteq> i)
          \<and> (\<forall>coords. step (PositionUpdate i coords) s' = None)"
    using later by auto
  then show ?thesis
    using 1 assms(4) by (simp add: permissionResolved_def)
qed




lemma run_bell_awaiting:
  "run [PressRoute (ROUTES ! 1)] initial =
     Some \<lparr>location = None, selectedRoute = Some (ROUTES ! 1), routeCoordinates = [],
       console = [], sessions = [\<lparr>route = ROUTES ! 1, phase = AwaitingPermission\<rparr>], inflight = []\<rparr>"
  by (simp add: ROUTES_def initial_def pressRoute_def)

text \<open>
  Claim C7 at a denied request for Bell Rock: after Back, a second selection, its granted
  permission and a position update of the second session, the first session is still
  stopped and cannot receive an update.
\<close>

theorem denied_session_idle_witness:
  "\<exists>s s1 s'. run [PressRoute (ROUTES ! 1)] initial = Some s
     \<and> step (PermissionResolved 0 Denied) s = Some s1
     \<and> location s1 = None \<and> routeCoordinates s1 = [] \<and> inflight s1 = []
     \<and> console s1 = [''Permission to access location was denied'']
     \<and> run [PressBack, PressRoute (ROUTES ! 0), PermissionResolved 1 Granted,
              PositionUpdate 1 \<lparr>latitude = 34.8030, longitude = -111.7761\<rparr>] s1 = Some s'
     \<and> phase (sessions s' ! 0) = Stopped
     \<and> step (PositionUpdate 0 \<lparr>latitude = 34.8030, longitude = -111.7761\<rparr>) s' = None"
proof -
  let ?s = "\<lparr>location = None, selectedRoute = Some (ROUTES ! 1), routeCoordinates = [],
       console = [], sessions = [\<lparr>route = ROUTES ! 1, phase = AwaitingPermission\<rparr>], inflight = []\<rparr>"
  have h: "0 < length (sessions ?s)" "phase (sessions ?s ! 0) = AwaitingPermission"
    "Denied \<noteq> Granted" by simp_all
  obtain s1 where s1: "step (PermissionResolved 0 Denied) ?s = Some s1"
    "location s1 = location ?s" "routeCoordinates s1 = routeCoordinates ?s"
    "inflight s1 = inflight ?s"
    "console s1 = console ?s @ [''Permission to access location was denied'']"
    and later: "\<forall>es s'. run es s1 = Some s' \<longrightarrow>
            phase (sessions s' ! 0) = Stopped
          \<and> (\<forall>p\<in>set (inflight s'). owner p \<noteq> 0)
          \<and> (\<forall>coords. step (PositionUpdate 0 coords) s' = None)"
    using denied_session_idle [OF run_bell_awaiting h] by blast
  have s1_eq: "s1 = permissionResolved 0 Denied ?s" using s1(1) by simp
  obtain s' where r: "run [PressBack, PressRoute (ROUTES ! 0), PermissionResolved 1 Granted,
              PositionUpdate 1 \<lparr>latitude = 34.8030, longitude = -111.7761\<rparr>] s1 = Some s'"
    by (simp add: s1_eq ROUTES_def permissionResolved_def pressBack_def pressRoute_def
        cleanup_def positionCallback_begin_def Let_def)
  show ?thesis
    using run_bell_awaiting s1 r later by (simp only: HomeScreen.simps append_Nil) blast
qed

subsection \<open>The path over the life of the screen\<close>

lemma recorded_step:
  assumes "(routeCoordinates s \<noteq> [] \<or> inflight s \<noteq> []) \<longrightarrow> location s \<noteq> None"
    and "step e s = Some s'"
  shows "(routeCoordinates s' \<noteq> [] \<or> inflight s' \<noteq> []) \<longrightarrow> location s' \<noteq> None"
proof (cases e)
  case (RouteFetched k net)
  then have k: "k < length (inflight s)" using assms(2) by (simp split: if_splits)
  obtain c rc where "step (RouteFetched k net) s =
      Some (s\<lparr>inflight := take k (inflight s) @ drop (Suc k) (inflight s), console := c,
              routeCoordinates := rc\<rparr>)"
    using step_RouteFetched [OF k] by blast
  then have "location s' = location s" using assms(2) RouteFetched by auto
  moreover have "inflight s \<noteq> []" using k by auto
  ultimately show ?thesis using assms(1) by simp
qed (use assms in \<open>auto simp: pressRoute_def pressBack_def centerOnLocation_def
      permissionResolved_def positionCallback_begin_def Let_def split: if_splits\<close>)

lemma reachable_recorded:
  assumes "run es initial = Some s"
  shows "(routeCoordinates s \<noteq> [] \<or> inflight s \<noteq> []) \<longrightarrow> location s \<noteq> None"
proof (rule run_invariant [where P = "\<lambda>s. (routeCoordinates s \<noteq> [] \<or> inflight s \<noteq> []) \<longrightarrow> location s \<noteq> None",
      OF _ _ assms])
  show "(routeCoordinates initial \<noteq> [] \<or> inflight initial \<noteq> []) \<longrightarrow> location initial \<noteq> None"
    by (simp add: initial_def)
qed (rule recorded_step)

lemma path_changes_only_on_fetch:
  assumes "step e s = Some s'" and "routeCoordinates s' \<noteq> routeCoordinates s"
  shows "\<exists>k net. e = RouteFetched k net \<and> k < length (inflight s)
      \<and> (routeCoordinates s' \<noteq> [] \<longrightarrow>
           \<not> js_less (calculateDistance (currentPosition (inflight s ! k))
                (endLocation (target (inflight s ! k)))) 0.05)"
proof (cases e)
  case (RouteFetched k net)
  then have k: "k < length (inflight s)" using assms(1) by (simp split: if_splits)
  obtain c rc where "step (RouteFetched k net) s =
      Some (s\<lparr>inflight := take k (inflight s) @ drop (Suc k) (inflight s), console := c,
              routeCoordinates := rc\<rparr>)"
     and "js_less (calculateDistance (currentPosition (inflight s ! k))
            (endLocation (target (inflight s ! k)))) 0.05 \<longrightarrow> rc = []"
    using step_RouteFetched [OF k] by blast
  then have "js_less (calculateDistance (currentPosition (inflight s ! k))
            (endLocation (target (inflight s ! k)))) 0.05 \<longrightarrow> routeCoordinates s' = []"
    using assms(1) RouteFetched by auto
  then show ?thesis using RouteFetched k by blast
qed (use assms in \<open>auto simp: pressRoute_def pressBack_def centerOnLocation_def
      permissionResolved_def positionCallback_begin_def Let_def split: if_splits\<close>)

text \<open>
  Claim C2, as amended. In every reachable state the path line is drawn only while a route
  is selected and \<open>routeCoordinates\<close> is non-empty, and \<open>routeCoordinates\<close> is non-empty
  only after a position has been recorded. For every event from such a state: Back clears
  the selection and leaves \<open>routeCoordinates\<close> as it is; \<open>routeCoordinates\<close> changes only
  when the route fetch of a position update completes, and it is then non-empty only if the
  distance of that update to its destination is not below 0.05 km.
\<close>

theorem path_points_lifecycle:
  assumes "run es initial = Some s" and "step e s = Some s'"
  shows "(polyline (render s) \<noteq> None \<longrightarrow> selectedRoute s \<noteq> None \<and> routeCoordinates s \<noteq> [])
     \<and> (routeCoordinates s \<noteq> [] \<longrightarrow> location s \<noteq> None)
     \<and> (e = PressBack \<longrightarrow> selectedRoute s' = None \<and> routeCoordinates s' = routeCoordinates s)
     \<and> (routeCoordinates s' \<noteq> routeCoordinates s \<longrightarrow>
          (\<exists>k net. e = RouteFetched k net \<and> k < length (inflight s)
            \<and> (routeCoordinates s' \<noteq> [] \<longrightarrow>
                 \<not> js_less (calculateDistance (currentPosition (inflight s ! k))
                      (endLocation (target (inflight s ! k)))) 0.05)))"
proof -
  have 1: "polyline (render s) \<noteq> None \<longrightarrow> selectedRoute s \<noteq> None \<and> routeCoordinates s \<noteq> []"
    by (auto simp: render_def split: option.splits if_splits)
  have 2: "routeCoordinates s \<noteq> [] \<longrightarrow> location s \<noteq> None"
    using reachable_recorded [OF assms(1)] by blast
  have 3: "e = PressBack \<longrightarrow> selectedRoute s' = None \<and> routeCoordinates s' = routeCoordinates s"
    using assms(2) by (auto simp: pressBack_def split: if_splits)
  show ?thesis
    using 1 2 3 path_changes_only_on_fetch [OF assms(2)] by blast
qed

lemma run_append:
  "run (es @ es') s = (case run es s of None \<Rightarrow> None | Some s' \<Rightarrow> run es' s')"
  by (induction es arbitrary: s) (auto split: option.splits)

lemma run_bell_update:
  "run [PressRoute (ROUTES ! 1), PermissionResolved 0 Granted,
        PositionUpdate 0 \<lparr>latitude = 33.8032, longitude = -111.7761\<rparr>] initial =
     Some \<lparr>location = Some \<lparr>latitude = 33.8032, longitude = -111.7761\<rparr>,
       selectedRoute = Some (ROUTES ! 1), routeCoordinates = [], console = [],
       sessions = [\<lparr>route = ROUTES ! 1, phase = Subscribed\<rparr>],
       inflight = [\<lparr>owner = 0, currentPosition = \<lparr>latitude = 33.8032, longitude = -111.7761\<rparr>,
          target = ROUTES ! 1\<rparr>]\<rparr>"
  by (simp add: ROUTES_def initial_def pressRoute_def permissionResolved_def
      positionCallback_begin_def Let_def)

lemma step_bell_fetch_fails:
  "step (RouteFetched 0 (Inl NetworkError))
      \<lparr>location = Some \<lparr>latitude = 33.8032, longitude = -111.7761\<rparr>,
       selectedRoute = Some (ROUTES ! 1), routeCoordinates = [], console = [],
       sessions = [\<lparr>route = ROUTES ! 1, phase = Subscribed\<rparr>],
       inflight = [\<lparr>owner = 0, currentPosition = \<lparr>latitude = 33.8032, longitude = -111.7761\<rparr>,
          target = ROUTES ! 1\<rparr>]\<rparr> =
     Some \<lparr>location = Some \<lparr>latitude = 33.8032, longitude = -111.7761\<rparr>,
       selectedRoute = Some (ROUTES ! 1),
       routeCoordinates = [\<lparr>latitude = JNumber 33.8032, longitude = JNumber (-111.7761)\<rparr>,
                           \<lparr>latitude = JNumber 34.8032, longitude = JNumber (-111.7761)\<rparr>],
       console = [''Error fetching route:''],
       sessions = [\<lparr>route = ROUTES ! 1, phase = Subscribed\<rparr>], inflight = []\<rparr>"
  using bell_far
  by (simp add: positionCallback_resume_def fetchRouteCoordinates_def fetch_try_def
      asRouteCoordinates_def ROUTES_def)

lemma run_bell_far:
  "run [PressRoute (ROUTES ! 1), PermissionResolved 0 Granted,
        PositionUpdate 0 \<lparr>latitude = 33.8032, longitude = -111.7761\<rparr>,
        RouteFetched 0 (Inl NetworkError)] initial =
     Some \<lparr>location = Some \<lparr>latitude = 33.8032, longitude = -111.7761\<rparr>,
       selectedRoute = Some (ROUTES ! 1),
       routeCoordinates = [\<lparr>latitude = JNumber 33.8032, longitude = JNumber (-111.7761)\<rparr>,
                           \<lparr>latitude = JNumber 34.8032, longitude = JNumber (-111.7761)\<rparr>],
       console = [''Error fetching route:''],
       sessions = [\<lparr>route = ROUTES ! 1, phase = Subscribed\<rparr>], inflight = []\<rparr>"
proof -
  have "run ([PressRoute (ROUTES ! 1), PermissionResolved 0 Granted,
        PositionUpdate 0 \<lparr>latitude = 33.8032, longitude = -111.7761\<rparr>] @
        [RouteFetched 0 (Inl NetworkError)]) initial =
     Some \<lparr>location = Some \<lparr>latitude = 33.8032, longitude = -111.7761\<rparr>,
       selectedRoute = Some (ROUTES ! 1),
       routeCoordinates = [\<lparr>latitude = JNumber 33.8032, longitude = JNumber (-111.7761)\<rparr>,
                           \<lparr>latitude = JNumber 34.8032, longitude = JNumber (-111.7761)\<rparr>],
       console = [''Error fetching route:''],
       sessions = [\<lparr>route = ROUTES ! 1, phase = Subscribed\<rparr>], inflight = []\<rparr>"
    by (simp only: run_append run_bell_update option.case)
      (simp only: run.simps step_bell_fetch_fails option.case)
  then show ?thesis by (simp only: append.simps)
qed

lemma step_bell_back:
  "step PressBack
     \<lparr>location = Some \<lparr>latitude = 33.8032, longitude = -111.7761\<rparr>,
       selectedRoute = Some (ROUTES ! 1),
       routeCoordinates = [\<lparr>latitude = JNumber 33.8032, longitude = JNumber (-111.7761)\<rparr>,
                           \<lparr>latitude = JNumber 34.8032, longitude = JNumber (-111.7761)\<rparr>],
       console = [''Error fetching route:''],
       sessions = [\<lparr>route = ROUTES ! 1, phase = Subscribed\<rparr>], inflight = []\<rparr> =
   Some \<lparr>location = Some \<lparr>latitude = 33.8032, longitude = -111.7761\<rparr>,
       selectedRoute = None,
       routeCoordinates = [\<lparr>latitude = JNumber 33.8032, longitude = JNumber (-111.7761)\<rparr>,
                           \<lparr>latitude = JNumber 34.8032, longitude = JNumber (-111.7761)\<rparr>],
       console = [''Error fetching route:''],
       sessions = [\<lparr>route = ROUTES ! 1, phase = Removed\<rparr>], inflight = []\<rparr>"
  by (simp add: pressBack_def cleanup_def)

text \<open>
  The amended claim C2 on a session for Bell Rock whose update, one degree of latitude away,
  gets the straight line of a failed fetch, at the completion of that fetch and at Back.
\<close>

theorem path_points_lifecycle_witness:
  "\<exists>s s' t t'.
      run [PressRoute (ROUTES ! 1), PermissionResolved 0 Granted,
           PositionUpdate 0 \<lparr>latitude = 33.8032, longitude = -111.7761\<rparr>,
           RouteFetched 0 (Inl NetworkError)] initial = Some s
    \<and> step PressBack s = Some s'
    \<and> polyline (render s) \<noteq> None \<and> selectedRoute s \<noteq> None \<and> routeCoordinates s \<noteq> []
    \<and> location s \<noteq> None
    \<and> selectedRoute s' = None \<and> routeCoordinates s' = routeCoordinates s
    \<and> run [PressRoute (ROUTES ! 1), PermissionResolved 0 Granted,
           PositionUpdate 0 \<lparr>latitude = 33.8032, longitude = -111.7761\<rparr>] initial = Some t
    \<and> step (RouteFetched 0 (Inl NetworkError)) t = Some t'
    \<and> routeCoordinates t' \<noteq> routeCoordinates t \<and> routeCoordinates t' \<noteq> []
    \<and> \<not> js_less (calculateDistance (currentPosition (inflight t ! 0))
            (endLocation (target (inflight t ! 0)))) 0.05"
  using path_points_lifecycle [OF run_bell_far step_bell_back]
    path_points_lifecycle [OF run_bell_update step_bell_fetch_fails]
    run_bell_far step_bell_back run_bell_update step_bell_fetch_fails
  by (simp add: render_def)

text \<open>
  Claim C2 as stated fails: after a selection, a granted permission, a position update far
  from the destination, its failed fetch, and Back, no route is selected and
  \<open>routeCoordinates\<close> still holds the two points of the straight line.
\<close>

theorem back_keeps_path_counterexample:
  "map_option selectedRoute
     (run [PressRoute (ROUTES ! 1), PermissionResolved 0 Granted,
           PositionUpdate 0 \<lparr>latitude = 33.8032, longitude = -111.7761\<rparr>,
           RouteFetched 0 (Inl NetworkError), PressBack] initial) = Some None
   \<and> map_option routeCoordinates
     (run [PressRoute (ROUTES ! 1), PermissionResolved 0 Granted,
           PositionUpdate 0 \<lparr>latitude = 33.8032, longitude = -111.7761\<rparr>,
           RouteFetched 0 (Inl NetworkError), PressBack] initial) =
       Some [\<lparr>latitude = JNumber 33.8032, longitude = JNumber (-111.7761)\<rparr>,
             \<lparr>latitude = JNumber 34.8032, longitude = JNumber (-111.7761)\<rparr>]"
proof -
  have "run ([PressRoute (ROUTES ! 1), PermissionResolved 0 Granted,
           PositionUpdate 0 \<lparr>latitude = 33.8032, longitude = -111.7761\<rparr>,
           RouteFetched 0 (Inl NetworkError)] @ [PressBack]) initial =
    Some \<lparr>location = Some \<lparr>latitude = 33.8032, longitude = -111.7761\<rparr>,
       selectedRoute = None,
       routeCoordinates = [\<lparr>latitude = JNumber 33.8032, longitude = JNumber (-111.7761)\<rparr>,
                           \<lparr>latitude = JNumber 34.8032, longitude = JNumber (-111.7761)\<rparr>],
       console = [''Error fetching route:''],
       sessions = [\<lparr>route = ROUTES ! 1, phase = Removed\<rparr>], inflight = []\<rparr>"
    by (simp only: run_append run_bell_far option.case)
      (simp only: run.simps step_bell_back option.case)
  then show ?thesis by (simp only: append.simps option.map HomeScreen.simps simp_thms)
qed

end
